theory Spec2Isabelle
  imports Main
begin

section \<open>Python values, exceptions and outcomes\<close>

text \<open>
  The two handlers receive and return dynamically typed Python values
  (\<^verbatim>\<open>Dict[str, Any]\<close>). A value is a \<open>pyval\<close>; a dictionary keeps its
  items in insertion order, as Python dictionaries do, and its keys are strings.
  Characters are the 8-bit characters of HOL: a code point above 255 is outside the model.
\<close>

datatype pyval =
    PyNone
  | PyBool bool
  | PyInt int
  | PyStr string
  | PyList "pyval list"
  | PyDict "(string \<times> pyval) list"

text \<open>
  Both \<^verbatim>\<open>except\<close> clauses of the gateway name the class \<^verbatim>\<open>Exception\<close>, and
  both handlers of the exception \<open>e\<close> evaluate \<^verbatim>\<open>f"{e}"\<close> first, for the log, and
  \<^verbatim>\<open>str(e)\<close> afterwards. Each of the two runs code of the exception's class
  (\<^verbatim>\<open>__format__\<close>, \<^verbatim>\<open>__str__\<close>), which returns a text or raises in its turn. An
  instance of \<^verbatim>\<open>Exception\<close> is \<open>PyException\<close>, carrying what \<^verbatim>\<open>f"{e}"\<close> does and
  what \<^verbatim>\<open>str(e)\<close> does. An exception that is no instance of \<^verbatim>\<open>Exception\<close>
  (\<^verbatim>\<open>SystemExit\<close>, \<^verbatim>\<open>KeyboardInterrupt\<close>, \<^verbatim>\<open>asyncio.CancelledError\<close>,
  \<^verbatim>\<open>GeneratorExit\<close>) is \<open>PyBaseException\<close>, carrying its class name.
\<close>

datatype pyexc = PyException text_result text_result | PyBaseException string
  and text_result = Text string | TextRaises pyexc

text \<open>The usual exception: both evaluations return its message.\<close>

abbreviation plain_exception :: "string \<Rightarrow> pyexc" where
  "plain_exception t \<equiv> PyException (Text t) (Text t)"

datatype 'a outcome = Returns 'a | Raises pyexc

definition dict_get :: "pyval \<Rightarrow> string \<Rightarrow> pyval option" where
  "dict_get d k = (case d of PyDict kvs \<Rightarrow> map_of kvs k | _ \<Rightarrow> None)"

section \<open>The standard library's JSON encoder, on dictionaries of strings\<close>

text \<open>
  Every call of \<^verbatim>\<open>json.dumps\<close> in the two files has a dictionary with string keys
  and string values as its argument, and the default options: \<^verbatim>\<open>ensure_ascii=True\<close>,
  item separator \<^verbatim>\<open>", "\<close>, key separator \<^verbatim>\<open>": "\<close>. In a string, the backslash,
  the double quote and every character outside \<^verbatim>\<open>' '..'~'\<close> are escaped: the short
  escapes \<^verbatim>\<open>\b \f \n \r \t\<close> where they exist, \<^verbatim>\<open>\uXXXX\<close> with lower-case
  hexadecimal digits otherwise.
\<close>

definition hexdigit :: "nat \<Rightarrow> char" where
  "hexdigit n = ''0123456789abcdef'' ! (n mod 16)"

definition escape_char :: "char \<Rightarrow> string" where
  "escape_char c =
     (let n = (of_char c :: nat) in
      if c = CHR 0x5C then [CHR 0x5C, CHR 0x5C]
      else if c = CHR 0x22 then [CHR 0x5C, CHR 0x22]
      else if c = CHR 0x08 then [CHR 0x5C, CHR ''b'']
      else if c = CHR 0x0C then [CHR 0x5C, CHR ''f'']
      else if c = CHR 0x0A then [CHR 0x5C, CHR ''n'']
      else if c = CHR 0x0D then [CHR 0x5C, CHR ''r'']
      else if c = CHR 0x09 then [CHR 0x5C, CHR ''t'']
      else if 0x20 \<le> n \<and> n \<le> 0x7E then [c]
      else [CHR 0x5C, CHR ''u'', hexdigit (n div 4096 mod 16), hexdigit (n div 256 mod 16),
            hexdigit (n div 16 mod 16), hexdigit (n mod 16)])"

definition encode_basestring_ascii :: "string \<Rightarrow> string" where
  "encode_basestring_ascii s = [CHR 0x22] @ concat (map escape_char s) @ [CHR 0x22]"

fun join_items :: "string list \<Rightarrow> string" where
  "join_items [] = []"
| "join_items [x] = x"
| "join_items (x # y # ys) = x @ '', '' @ join_items (y # ys)"

definition encode_item :: "string \<times> string \<Rightarrow> string" where
  "encode_item kv = encode_basestring_ascii (fst kv) @ '': '' @ encode_basestring_ascii (snd kv)"

definition json_dumps :: "(string \<times> string) list \<Rightarrow> string" where
  "json_dumps d = ''{'' @ join_items (map encode_item d) @ ''}''"

section \<open>The standard library's JSON decoder, on objects of strings\<close>

text \<open>
  \<open>json_loads\<close> follows \<^verbatim>\<open>json.loads\<close> on the JSON texts that are an object whose
  values are all strings: white space is skipped around every token, a string may hold
  any of the escapes of JSON, and a control character inside a string is an error. It is
  \<open>None\<close> on every other text, and on a \<^verbatim>\<open>\uXXXX\<close> above 255. The decoded
  object lists its items in the order of the text.
\<close>

definition is_ws :: "char \<Rightarrow> bool" where
  "is_ws c = (c = CHR 0x20 \<or> c = CHR 0x09 \<or> c = CHR 0x0A \<or> c = CHR 0x0D)"

fun skip_ws :: "string \<Rightarrow> string" where
  "skip_ws [] = []"
| "skip_ws (c # cs) = (if is_ws c then skip_ws cs else c # cs)"

definition hexval :: "char \<Rightarrow> nat option" where
  "hexval c =
     (let n = (of_char c :: nat) in
      if 0x30 \<le> n \<and> n \<le> 0x39 then Some (n - 0x30)
      else if 0x61 \<le> n \<and> n \<le> 0x66 then Some (n - 0x61 + 10)
      else if 0x41 \<le> n \<and> n \<le> 0x46 then Some (n - 0x41 + 10)
      else None)"

definition hex4 :: "char \<Rightarrow> char \<Rightarrow> char \<Rightarrow> char \<Rightarrow> nat option" where
  "hex4 a b c d =
     (case (hexval a, hexval b, hexval c, hexval d) of
        (Some x, Some y, Some z, Some u) \<Rightarrow> Some (((x * 16 + y) * 16 + z) * 16 + u)
      | _ \<Rightarrow> None)"

definition unescape :: "char \<Rightarrow> char option" where
  "unescape e =
     (if e = CHR 0x22 then Some (CHR 0x22)
      else if e = CHR 0x5C then Some (CHR 0x5C)
      else if e = CHR ''/'' then Some (CHR ''/'')
      else if e = CHR ''b'' then Some (CHR 0x08)
      else if e = CHR ''f'' then Some (CHR 0x0C)
      else if e = CHR ''n'' then Some (CHR 0x0A)
      else if e = CHR ''r'' then Some (CHR 0x0D)
      else if e = CHR ''t'' then Some (CHR 0x09)
      else None)"

definition cons_char :: "char \<Rightarrow> (string \<times> string) option \<Rightarrow> (string \<times> string) option" where
  "cons_char c r = (case r of None \<Rightarrow> None | Some (s, rest) \<Rightarrow> Some (c # s, rest))"

fun scanstring :: "string \<Rightarrow> (string \<times> string) option" where
  "scanstring [] = None"
| "scanstring (c # cs) =
     (if c = CHR 0x22 then Some ([], cs)
      else if c = CHR 0x5C then
        (case cs of
           [] \<Rightarrow> None
         | e # cs' \<Rightarrow>
             (if e = CHR ''u'' then
                (case cs' of
                   a # b # x # d # cs'' \<Rightarrow>
                     (case hex4 a b x d of
                        None \<Rightarrow> None
                      | Some n \<Rightarrow> if n < 256 then cons_char (char_of n) (scanstring cs'') else None)
                 | _ \<Rightarrow> None)
              else
                (case unescape e of
                   None \<Rightarrow> None
                 | Some x \<Rightarrow> cons_char x (scanstring cs'))))
      else if (of_char c :: nat) < 0x20 then None
      else cons_char c (scanstring cs))"

definition parse_string :: "string \<Rightarrow> (string \<times> string) option" where
  "parse_string s = (case s of [] \<Rightarrow> None | c # cs \<Rightarrow> if c = CHR 0x22 then scanstring cs else None)"

definition parse_pair :: "string \<Rightarrow> ((string \<times> string) \<times> string) option" where
  "parse_pair s =
     (case parse_string s of
        None \<Rightarrow> None
      | Some (k, s1) \<Rightarrow>
          (case skip_ws s1 of
             [] \<Rightarrow> None
           | c # s2 \<Rightarrow>
               if c \<noteq> CHR '':'' then None
               else (case parse_string (skip_ws s2) of
                       None \<Rightarrow> None
                     | Some (v, s3) \<Rightarrow> Some ((k, v), skip_ws s3))))"

text \<open>The scanner of string literals consumes its input, which is what makes the loop over
  the members of an object terminate.\<close>

lemma scanstring_shorter: "scanstring s = Some (x, r) \<Longrightarrow> length r < length s"
proof (induction s arbitrary: x r rule: length_induct)
  case (1 s)
  have IH: "scanstring ys = Some (y, q) \<Longrightarrow> length ys < length s \<Longrightarrow> length q < length ys" for ys y q
    using "1.IH" by blast
  show ?case
  proof (cases s)
    case Nil
    with "1.prems" show ?thesis by simp
  next
    case (Cons c cs)
    with "1.prems" show ?thesis
      by (auto simp: cons_char_def split: if_splits list.splits option.splits dest!: IH)
  qed
qed

lemma skip_ws_length: "length (skip_ws s) \<le> length s"
  by (induction s) (simp_all add: le_SucI)

lemma parse_string_shorter: "parse_string s = Some (x, r) \<Longrightarrow> length r < length s"
  by (auto simp: parse_string_def split: list.splits if_splits dest!: scanstring_shorter)

lemma parse_pair_shorter:
  assumes "parse_pair s = Some (kv, r)"
  shows "length r < length s"
proof -
  from assms obtain k s1 s2 v s3 where
    k: "parse_string s = Some (k, s1)" and c: "skip_ws s1 = CHR '':'' # s2"
    and v: "parse_string (skip_ws s2) = Some (v, s3)" and r: "r = skip_ws s3"
    by (auto simp: parse_pair_def split: option.splits list.splits if_splits)
  have "length r \<le> length s3" using r skip_ws_length by simp
  also have "\<dots> < length (skip_ws s2)" using v by (rule parse_string_shorter)
  also have "\<dots> \<le> length s2" by (rule skip_ws_length)
  also have "\<dots> < length (skip_ws s1)" using c by simp
  also have "\<dots> \<le> length s1" by (rule skip_ws_length)
  also have "\<dots> < length s" using k by (rule parse_string_shorter)
  finally show ?thesis .
qed

function parse_members :: "string \<Rightarrow> ((string \<times> string) list \<times> string) option" where
  "parse_members s =
     (case parse_pair s of
        None \<Rightarrow> None
      | Some (kv, s1) \<Rightarrow>
          (case s1 of
             [] \<Rightarrow> None
           | c # s2 \<Rightarrow>
               if c = CHR ''}'' then Some ([kv], s2)
               else if c = CHR '','' then
                 (case parse_members (skip_ws s2) of
                    None \<Rightarrow> None
                  | Some (kvs, r) \<Rightarrow> Some (kv # kvs, r))
               else None))"
  by pat_completeness auto
termination
proof (relation "measure length")
  show "wf (measure length)" by simp
next
  fix s :: string and x2 kv s1 c s2
  assume "parse_pair s = Some x2" and "(kv, s1) = x2" and "s1 = c # s2"
  then have "length (c # s2) < length s" using parse_pair_shorter [of s kv s1] by simp
  moreover have "length (skip_ws s2) \<le> length s2" by (rule skip_ws_length)
  ultimately show "(skip_ws s2, s) \<in> measure length" by simp
qed

definition json_loads :: "string \<Rightarrow> (string \<times> string) list option" where
  "json_loads s =
     (case skip_ws s of
        [] \<Rightarrow> None
      | c # s1 \<Rightarrow>
          if c \<noteq> CHR ''{'' then None
          else (case skip_ws s1 of
                  [] \<Rightarrow> None
                | d # s2 \<Rightarrow>
                    if d = CHR ''}'' then (if skip_ws s2 = [] then Some [] else None)
                    else (case parse_members (d # s2) of
                            None \<Rightarrow> None
                          | Some (kvs, r) \<Rightarrow> if skip_ws r = [] then Some kvs else None)))"

section \<open>The Health Responder\<close>

text \<open>
  \<^verbatim>\<open>api/health/handler.py\<close>: \<^verbatim>\<open>handle_request(event, context)\<close> reads neither
  argument and returns a dictionary literal.
\<close>

definition health_handle_request :: "pyval \<Rightarrow> pyval \<Rightarrow> pyval" where
  "health_handle_request event context =
     PyDict
       [(''statusCode'', PyInt 200),
        (''headers'',
           PyDict
             [(''Content-Type'', PyStr ''application/json''),
              (''Access-Control-Allow-Origin'', PyStr ''*''),
              (''Access-Control-Allow-Methods'', PyStr ''GET, OPTIONS''),
              (''Access-Control-Allow-Headers'', PyStr ''Content-Type'')]),
        (''body'',
           PyStr
             (json_dumps
                [(''status'', ''ok''),
                 (''message'', ''Physical AI Chatbot Backend is active!''),
                 (''version'', ''1.0'')]))]"

section \<open>The Adapter Gateway\<close>

subsection \<open>The module's globals and its initialisation\<close>

text \<open>
  The translation wrapper is a collaborator outside the repository. It is a function of
  the event, the context and the state \<open>'w\<close> of everything it can touch (the wrapped
  application included); \<^verbatim>\<open>await handler(event, context)\<close> either yields a value or
  raises, and leaves a new state behind. The calls of \<^verbatim>\<open>logger.error\<close> are taken to
  return: the logging module handles the failures of its own handlers.
\<close>

type_synonym 'w wrapper = "pyval \<Rightarrow> pyval \<Rightarrow> 'w \<Rightarrow> pyval outcome \<times> 'w"

text \<open>
  The module binds three names that \<^verbatim>\<open>handle_request\<close> reads: \<^verbatim>\<open>HANDLER_AVAILABLE\<close>,
  \<^verbatim>\<open>handler\<close> and \<^verbatim>\<open>error_message\<close>. The last two are bound on one branch of
  the \<^verbatim>\<open>try\<close> statement each; a name that is not bound is \<open>None\<close>.
\<close>

record 'w globals =
  HANDLER_AVAILABLE :: bool
  handler :: "'w wrapper option"
  error_message :: "string option"

text \<open>
  What the two imports of the module find: \<^verbatim>\<open>from index import app\<close> yields the web
  application or raises, \<^verbatim>\<open>from mangum import Mangum\<close> yields the wrapper's constructor
  or raises. The constructor takes the application and the value of its keyword argument
  \<^verbatim>\<open>lifespan\<close>, and yields the wrapper or raises.
\<close>

record ('app, 'w) module_imports =
  import_index :: "'app outcome"
  import_mangum :: "('app \<Rightarrow> string \<Rightarrow> 'w wrapper outcome) outcome"

text \<open>The body of the \<^verbatim>\<open>try\<close> statement, lines 20 to 24.\<close>

definition load_handler :: "('app, 'w) module_imports \<Rightarrow> 'w wrapper outcome" where
  "load_handler env =
     (case import_index env of
        Raises x \<Rightarrow> Raises x
      | Returns fastapi_app \<Rightarrow>
          (case import_mangum env of
             Raises x \<Rightarrow> Raises x
           | Returns Mangum \<Rightarrow> Mangum fastapi_app ''off''))"

text \<open>
  The \<^verbatim>\<open>try\<close> statement, lines 19 to 29: the globals it leaves, or the exception that
  leaves the module unloaded, and the lines it logs. Line 27 formats the exception for
  the log before line 28 assigns the flag, and line 29 takes \<^verbatim>\<open>str(e)\<close>; what either
  raises leaves the \<^verbatim>\<open>except\<close> block and the module.
\<close>

definition module_init :: "('app, 'w) module_imports \<Rightarrow> 'w globals outcome \<times> string list" where
  "module_init env =
     (case load_handler env of
        Returns h \<Rightarrow>
          (Returns \<lparr>HANDLER_AVAILABLE = True, handler = Some h, error_message = None\<rparr>, [])
      | Raises (PyException formatted text) \<Rightarrow>
          (case formatted of
             TextRaises x \<Rightarrow> (Raises x, [])
           | Text f \<Rightarrow>
               (case text of
                  TextRaises x \<Rightarrow> (Raises x, [''Failed to load FastAPI app: '' @ f])
                | Text e \<Rightarrow>
                    (Returns \<lparr>HANDLER_AVAILABLE = False, handler = None, error_message = Some e\<rparr>,
                     [''Failed to load FastAPI app: '' @ f])))
      | Raises (PyBaseException c) \<Rightarrow> (Raises (PyBaseException c), []))"

subsection \<open>The handler\<close>

definition name_error :: "string \<Rightarrow> pyexc" where
  "name_error n = plain_exception (''name '' @ [CHR 0x27] @ n @ [CHR 0x27] @ '' is not defined'')"

text \<open>Line 51, \<^verbatim>\<open>await handler(event, context)\<close>.\<close>

definition call_handler :: "'w globals \<Rightarrow> 'w wrapper" where
  "call_handler g event context w =
     (case handler g of
        None \<Rightarrow> (Raises (name_error ''handler''), w)
      | Some h \<Rightarrow> h event context w)"

text \<open>
  \<^verbatim>\<open>api/chat/handler.py\<close>, \<^verbatim>\<open>handle_request(event, context)\<close>, lines 32 to 65. The
  function reads the globals and assigns none of them. It returns its outcome, the state
  the wrapper has left and the lines it has logged. In the \<^verbatim>\<open>except\<close> block, line 54
  formats the exception for the log and line 63 takes \<^verbatim>\<open>str(e)\<close>; what either raises
  leaves the block and the function.
\<close>

definition chat_handle_request ::
    "'w globals \<Rightarrow> pyval \<Rightarrow> pyval \<Rightarrow> 'w \<Rightarrow> pyval outcome \<times> 'w \<times> string list" where
  "chat_handle_request g event context w =
     (if \<not> HANDLER_AVAILABLE g then
        (case error_message g of
           None \<Rightarrow> (Raises (name_error ''error_message''), w, [])
         | Some msg \<Rightarrow>
             (Returns
                (PyDict
                   [(''statusCode'', PyInt 500),
                    (''headers'',
                       PyDict
                         [(''Content-Type'', PyStr ''application/json''),
                          (''Access-Control-Allow-Origin'', PyStr ''*'')]),
                    (''body'',
                       PyStr
                         (json_dumps
                            [(''error'', ''Backend initialization failed''),
                             (''details'', msg)]))]),
              w, []))
      else
        (case call_handler g event context w of
           (Returns response, w') \<Rightarrow> (Returns response, w', [])
         | (Raises (PyException formatted text), w') \<Rightarrow>
             (case formatted of
                TextRaises x \<Rightarrow> (Raises x, w', [])
              | Text f \<Rightarrow>
                  (case text of
                     TextRaises x \<Rightarrow> (Raises x, w', [''Request handling error: '' @ f])
                   | Text e \<Rightarrow>
                       (Returns
                          (PyDict
                             [(''statusCode'', PyInt 500),
                              (''headers'',
                                 PyDict
                                   [(''Content-Type'', PyStr ''application/json''),
                                    (''Access-Control-Allow-Origin'', PyStr ''*'')]),
                              (''body'',
                                 PyStr
                                   (json_dumps
                                      [(''error'', ''Internal server error''),
                                       (''details'', e)]))]),
                        w', [''Request handling error: '' @ f])))
         | (Raises (PyBaseException c), w') \<Rightarrow> (Raises (PyBaseException c), w', [])))"

section \<open>Reading a response\<close>

text \<open>
  The Invocation Response of the specification has an integer \<open>statusCode\<close>, a mapping
  \<open>headers\<close> from strings to strings and a string \<open>body\<close>. The functions below read
  these fields off a Python value, and are \<open>None\<close> where the value has no such field of
  that type.
\<close>

definition statusCode_of :: "pyval \<Rightarrow> int option" where
  "statusCode_of r = (case dict_get r ''statusCode'' of Some (PyInt n) \<Rightarrow> Some n | _ \<Rightarrow> None)"

definition header_of :: "pyval \<Rightarrow> string \<Rightarrow> string option" where
  "header_of r k =
     (case dict_get r ''headers'' of
        Some hs \<Rightarrow> (case dict_get hs k of Some (PyStr v) \<Rightarrow> Some v | _ \<Rightarrow> None)
      | None \<Rightarrow> None)"

definition decoded_body :: "pyval \<Rightarrow> (string \<times> string) list option" where
  "decoded_body r = (case dict_get r ''body'' of Some (PyStr b) \<Rightarrow> json_loads b | _ \<Rightarrow> None)"

text \<open>Where a JSON object repeats a key, \<^verbatim>\<open>json.loads\<close> keeps the last value.\<close>

definition body_field :: "pyval \<Rightarrow> string \<Rightarrow> string option" where
  "body_field r k = (case decoded_body r of Some kvs \<Rightarrow> map_of (rev kvs) k | None \<Rightarrow> None)"

definition is_str :: "pyval \<Rightarrow> bool" where
  "is_str v = (case v of PyStr s \<Rightarrow> True | _ \<Rightarrow> False)"

definition is_invocation_response :: "pyval \<Rightarrow> bool" where
  "is_invocation_response r =
     ((case dict_get r ''statusCode'' of Some (PyInt n) \<Rightarrow> True | _ \<Rightarrow> False)
      \<and> (case dict_get r ''headers'' of
            Some (PyDict hs) \<Rightarrow> list_all (\<lambda>kv. is_str (snd kv)) hs
          | _ \<Rightarrow> False)
      \<and> (case dict_get r ''body'' of Some (PyStr b) \<Rightarrow> True | _ \<Rightarrow> False))"

section \<open>Example deployments\<close>

text \<open>
  Concrete collaborators at which the theorems below are instantiated. The state of the
  wrapper counts its invocations. \<open>flaky_wrapper\<close> raises on its first invocation and
  answers afterwards; its answer has the fields the wrapper library produces and no
  header of cross-origin sharing. \<open>cancelled_wrapper\<close> is a forwarding call that the
  event loop cancels. \<open>example_Mangum\<close> is a constructor that starts the application
  up, and fails, unless it is told not to. \<open>unprintable\<close> is an instance of
  \<^verbatim>\<open>Exception\<close> whose \<^verbatim>\<open>__str__\<close> indexes its empty \<^verbatim>\<open>args\<close> and raises
  \<^verbatim>\<open>IndexError\<close>.
\<close>

definition ok_response :: pyval where
  "ok_response =
     PyDict
       [(''statusCode'', PyInt 200),
        (''headers'', PyDict [(''content-type'', PyStr ''application/json'')]),
        (''body'', PyStr ''{}''),
        (''isBase64Encoded'', PyBool False)]"

definition flaky_wrapper :: "nat wrapper" where
  "flaky_wrapper event context n =
     (if n = 0 then Raises (plain_exception ''upstream timed out'') else Returns ok_response, Suc n)"

definition cancelled_wrapper :: "nat wrapper" where
  "cancelled_wrapper event context n = (Raises (PyBaseException ''CancelledError''), Suc n)"

definition example_Mangum :: "unit \<Rightarrow> string \<Rightarrow> nat wrapper outcome" where
  "example_Mangum app lifespan =
     (if lifespan = ''off'' then Returns flaky_wrapper
      else Raises (plain_exception ''lifespan startup failed''))"

definition working_imports :: "(unit, nat) module_imports" where
  "working_imports = \<lparr>import_index = Returns (), import_mangum = Returns example_Mangum\<rparr>"

definition cancelling_imports :: "(unit, nat) module_imports" where
  "cancelling_imports =
     \<lparr>import_index = Returns (), import_mangum = Returns (\<lambda>app lifespan. Returns cancelled_wrapper)\<rparr>"

definition missing_index_imports :: "(unit, nat) module_imports" where
  "missing_index_imports =
     \<lparr>import_index = Raises (plain_exception ''No module named index''),
      import_mangum = Returns (\<lambda>app lifespan. Returns flaky_wrapper)\<rparr>"

definition exiting_imports :: "(unit, nat) module_imports" where
  "exiting_imports =
     \<lparr>import_index = Raises (PyBaseException ''SystemExit''),
      import_mangum = Returns (\<lambda>app lifespan. Returns flaky_wrapper)\<rparr>"

definition unprintable :: pyexc where
  "unprintable =
     PyException (TextRaises (plain_exception ''tuple index out of range''))
       (TextRaises (plain_exception ''tuple index out of range''))"

definition unprintable_wrapper :: "nat wrapper" where
  "unprintable_wrapper event context n = (Raises unprintable, Suc n)"

definition unprintable_globals :: "nat globals" where
  "unprintable_globals =
     \<lparr>HANDLER_AVAILABLE = True, handler = Some unprintable_wrapper, error_message = None\<rparr>"

definition unprintable_imports :: "(unit, nat) module_imports" where
  "unprintable_imports =
     \<lparr>import_index = Returns (), import_mangum = Returns (\<lambda>app lifespan. Returns unprintable_wrapper)\<rparr>"

definition broken_index_imports :: "(unit, nat) module_imports" where
  "broken_index_imports =
     \<lparr>import_index = Raises unprintable,
      import_mangum = Returns (\<lambda>app lifespan. Returns flaky_wrapper)\<rparr>"

definition no_content_response :: pyval where
  "no_content_response = PyDict [(''statusCode'', PyInt 204), (''headers'', PyDict [])]"

definition no_content_wrapper :: "nat wrapper" where
  "no_content_wrapper event context n = (Returns no_content_response, Suc n)"

definition no_content_globals :: "nat globals" where
  "no_content_globals =
     \<lparr>HANDLER_AVAILABLE = True, handler = Some no_content_wrapper, error_message = None\<rparr>"

definition no_content_imports :: "(unit, nat) module_imports" where
  "no_content_imports =
     \<lparr>import_index = Returns (), import_mangum = Returns (\<lambda>app lifespan. Returns no_content_wrapper)\<rparr>"

definition unavailable_globals :: "nat globals" where
  "unavailable_globals =
     \<lparr>HANDLER_AVAILABLE = False, handler = None,
      error_message = Some ''No module named index''\<rparr>"

definition working_globals :: "nat globals" where
  "working_globals =
     \<lparr>HANDLER_AVAILABLE = True, handler = Some flaky_wrapper, error_message = None\<rparr>"

definition cancelling_globals :: "nat globals" where
  "cancelling_globals =
     \<lparr>HANDLER_AVAILABLE = True, handler = Some cancelled_wrapper, error_message = None\<rparr>"

section \<open>Decoding what the encoder writes\<close>

lemma hexval_hexdigit: "k < 16 \<Longrightarrow> hexval (hexdigit k) = Some k"
proof -
  assume "k < 16"
  then have "k \<in> {0, 1, 2, 3, 4, 5, 6, 7, 8, 9, 10, 11, 12, 13, 14, 15}" by (simp) presburger
  then show ?thesis
    by (auto simp: hexdigit_def hexval_def)
qed

lemma hex4_hexdigits:
  assumes "n < 256"
  shows "hex4 (hexdigit (n div 4096 mod 16)) (hexdigit (n div 256 mod 16))
    (hexdigit (n div 16 mod 16)) (hexdigit (n mod 16)) = Some n"
proof -
  have a: "n div 4096 mod 16 = 0" "n div 256 mod 16 = 0" using assms by simp_all
  have b: "n div 16 mod 16 = n div 16" using assms by simp
  have c: "n div 16 < 16" using assms by simp
  have z: "hexval (hexdigit 0) = Some 0" by (rule hexval_hexdigit) simp
  show ?thesis
    unfolding hex4_def a b using hexval_hexdigit [OF c] hexval_hexdigit [of "n mod 16"] z
    by simp
qed

lemma hex4_of_char: "hex4 (hexdigit (of_char c div 4096 mod 16)) (hexdigit (of_char c div 256 mod 16))
    (hexdigit (of_char c div 16 mod 16)) (hexdigit (of_char c mod 16)) = Some (of_char c)"
  by (rule hex4_hexdigits) simp

lemma scanstring_escape_char:
  "scanstring (escape_char c @ rest) = cons_char c (scanstring rest)"
proof -
  consider (bs) "c = CHR 0x5C" | (q) "c = CHR 0x22" | (b) "c = CHR 0x08" | (f) "c = CHR 0x0C"
    | (n) "c = CHR 0x0A" | (r) "c = CHR 0x0D" | (t) "c = CHR 0x09"
    | (plain) "c \<noteq> CHR 0x5C" "c \<noteq> CHR 0x22" "0x20 \<le> (of_char c :: nat)" "(of_char c :: nat) \<le> 0x7E"
    | (uni) "c \<noteq> CHR 0x5C" "c \<noteq> CHR 0x22" "c \<noteq> CHR 0x08" "c \<noteq> CHR 0x0C" "c \<noteq> CHR 0x0A"
        "c \<noteq> CHR 0x0D" "c \<noteq> CHR 0x09" "\<not> (0x20 \<le> (of_char c :: nat) \<and> (of_char c :: nat) \<le> 0x7E)"
    by blast
  then show ?thesis
  proof cases
    case plain
    then have "escape_char c = [c]"
      by (auto simp: escape_char_def Let_def)
    with plain show ?thesis by simp
  next
    case uni
    define h1 where "h1 = hexdigit (of_char c div 4096 mod 16)"
    define h2 where "h2 = hexdigit (of_char c div 256 mod 16)"
    define h3 where "h3 = hexdigit (of_char c div 16 mod 16)"
    define h4 where "h4 = hexdigit (of_char c mod 16)"
    have hx: "hex4 h1 h2 h3 h4 = Some (of_char c)"
      unfolding h1_def h2_def h3_def h4_def by (rule hex4_of_char)
    from uni have "escape_char c = [CHR 0x5C, CHR ''u'', h1, h2, h3, h4]"
      unfolding h1_def h2_def h3_def h4_def by (simp add: escape_char_def Let_def)
    then show ?thesis by (simp add: hx)
  qed (simp_all add: escape_char_def unescape_def)
qed

lemma scanstring_escaped:
  "scanstring (concat (map escape_char s) @ CHR 0x22 # rest) = Some (s, rest)"
  by (induction s) (simp_all add: scanstring_escape_char cons_char_def)

declare parse_members.simps [simp del]

lemma skip_ws_encoded [simp]:
  "skip_ws (encode_basestring_ascii s @ rest) = encode_basestring_ascii s @ rest"
  by (simp add: encode_basestring_ascii_def is_ws_def)

lemma parse_string_encoded:
  "parse_string (encode_basestring_ascii s @ rest) = Some (s, rest)"
  by (simp add: parse_string_def encode_basestring_ascii_def scanstring_escaped)

lemma parse_pair_encoded:
  "parse_pair (encode_item kv @ rest) = Some (kv, skip_ws rest)"
  by (simp add: parse_pair_def encode_item_def parse_string_encoded is_ws_def)

lemma encode_item_head: "\<exists>t. encode_item kv = CHR 0x22 # t"
  by (simp add: encode_item_def encode_basestring_ascii_def)

lemma join_items_head: "\<exists>t. join_items (map encode_item (kv # kvs)) = CHR 0x22 # t"
  using encode_item_head [of kv] by (cases kvs) auto

lemma parse_members_encoded:
  "parse_members (join_items (map encode_item (kv # kvs)) @ CHR ''}'' # rest) = Some (kv # kvs, rest)"
proof (induction kvs arbitrary: kv)
  case Nil
  show ?case
    by (subst parse_members.simps) (simp add: parse_pair_encoded is_ws_def)
next
  case (Cons kv' kvs)
  obtain t where t: "join_items (map encode_item (kv' # kvs)) = CHR 0x22 # t"
    using join_items_head by blast
  define tail where "tail = join_items (map encode_item (kv' # kvs)) @ CHR ''}'' # rest"
  have ws: "skip_ws tail = tail"
    unfolding tail_def by (simp only: t) (simp add: is_ws_def)
  have ih: "parse_members tail = Some (kv' # kvs, rest)"
    unfolding tail_def by (rule Cons.IH)
  have "parse_members (encode_item kv @ CHR '','' # CHR '' '' # tail) = Some (kv # kv' # kvs, rest)"
    by (subst parse_members.simps) (simp add: parse_pair_encoded is_ws_def ws ih)
  then have "parse_members (join_items (map encode_item (kv # kv' # kvs)) @ CHR ''}'' # rest)
      = Some (kv # kv' # kvs, rest)"
    unfolding tail_def by simp
  then show ?case by simp
qed

lemma json_roundtrip: "json_loads (json_dumps d) = Some d"
proof (cases d)
  case Nil
  then show ?thesis by (simp add: json_loads_def json_dumps_def is_ws_def)
next
  case (Cons kv kvs)
  obtain t where t: "join_items (map encode_item (kv # kvs)) = CHR 0x22 # t"
    using join_items_head by blast
  have "parse_members (CHR 0x22 # t @ ''}'') = Some (kv # kvs, [])"
    using parse_members_encoded [of kv kvs "[]"] t by simp
  then show ?thesis
    using Cons t by (simp add: json_loads_def json_dumps_def is_ws_def)
qed

section \<open>What initialisation leaves behind\<close>

lemma module_init_unavailable:
  assumes "module_init env = (Returns g, lg)" and "\<not> HANDLER_AVAILABLE g"
  shows "\<exists>f t. load_handler env = Raises (PyException (Text f) (Text t))
           \<and> g = \<lparr>HANDLER_AVAILABLE = False, handler = None, error_message = Some t\<rparr>
           \<and> lg = [''Failed to load FastAPI app: '' @ f]"
  using assms
  by (auto simp: module_init_def split: outcome.splits pyexc.splits text_result.splits)

lemma module_init_available:
  assumes "module_init env = (Returns g, lg)" and "HANDLER_AVAILABLE g"
  shows "\<exists>h. load_handler env = Returns h
           \<and> g = \<lparr>HANDLER_AVAILABLE = True, handler = Some h, error_message = None\<rparr>
           \<and> lg = []"
  using assms
  by (auto simp: module_init_def split: outcome.splits pyexc.splits text_result.splits)

lemma load_handler_Returns:
  "load_handler env = Returns h \<longleftrightarrow>
     (\<exists>app Mangum. import_index env = Returns app \<and> import_mangum env = Returns Mangum
        \<and> Mangum app ''off'' = Returns h)"
  by (auto simp: load_handler_def split: outcome.splits)

lemma load_handler_Raises:
  "load_handler env = Raises x \<longleftrightarrow>
     (import_index env = Raises x
      \<or> (\<exists>app. import_index env = Returns app
            \<and> (import_mangum env = Raises x
                \<or> (\<exists>Mangum. import_mangum env = Returns Mangum \<and> Mangum app ''off'' = Raises x))))"
  by (auto simp: load_handler_def split: outcome.splits)

section \<open>The two error responses of the gateway\<close>

text \<open>
  Both are the same dictionary literal but for the two strings of the body; the lemmas
  read its fields once.
\<close>

lemma error_response_fields:
  fixes r :: pyval
  assumes "r = PyDict
                 [(''statusCode'', PyInt 500),
                  (''headers'',
                     PyDict
                       [(''Content-Type'', PyStr ''application/json''),
                        (''Access-Control-Allow-Origin'', PyStr ''*'')]),
                  (''body'', PyStr (json_dumps [(''error'', e), (''details'', d)]))]"
  shows "statusCode_of r = Some 500"
    and "header_of r ''Content-Type'' = Some ''application/json''"
    and "header_of r ''Access-Control-Allow-Origin'' = Some ''*''"
    and "header_of r ''Access-Control-Allow-Methods'' = None"
    and "header_of r ''Access-Control-Allow-Headers'' = None"
    and "decoded_body r = Some [(''error'', e), (''details'', d)]"
    and "body_field r ''error'' = Some e"
    and "body_field r ''details'' = Some d"
    and "is_invocation_response r"
    and "dict_get r ''headers''
           = Some (PyDict [(''Content-Type'', PyStr ''application/json''),
                           (''Access-Control-Allow-Origin'', PyStr ''*'')])"
  unfolding assms
  by (simp_all add: statusCode_of_def header_of_def decoded_body_def body_field_def
      is_invocation_response_def is_str_def dict_get_def json_roundtrip)

lemma chat_unavailable:
  assumes "\<not> HANDLER_AVAILABLE g" and "error_message g = Some t"
  shows "chat_handle_request g event context w =
           (Returns
              (PyDict
                 [(''statusCode'', PyInt 500),
                  (''headers'',
                     PyDict
                       [(''Content-Type'', PyStr ''application/json''),
                        (''Access-Control-Allow-Origin'', PyStr ''*'')]),
                  (''body'',
                     PyStr (json_dumps [(''error'', ''Backend initialization failed''),
                                        (''details'', t)]))]),
            w, [])"
  using assms by (simp add: chat_handle_request_def)

lemma chat_caught:
  assumes "HANDLER_AVAILABLE g"
    and "call_handler g event context w = (Raises (PyException (Text f) (Text t)), w')"
  shows "chat_handle_request g event context w =
           (Returns
              (PyDict
                 [(''statusCode'', PyInt 500),
                  (''headers'',
                     PyDict
                       [(''Content-Type'', PyStr ''application/json''),
                        (''Access-Control-Allow-Origin'', PyStr ''*'')]),
                  (''body'',
                     PyStr (json_dumps [(''error'', ''Internal server error''),
                                        (''details'', t)]))]),
            w', [''Request handling error: '' @ f])"
  using assms by (simp add: chat_handle_request_def)

lemma chat_format_raises:
  assumes "HANDLER_AVAILABLE g"
    and "call_handler g event context w = (Raises (PyException (TextRaises x) text), w')"
  shows "chat_handle_request g event context w = (Raises x, w', [])"
  using assms by (simp add: chat_handle_request_def)

lemma chat_str_raises:
  assumes "HANDLER_AVAILABLE g"
    and "call_handler g event context w = (Raises (PyException (Text f) (TextRaises x)), w')"
  shows "chat_handle_request g event context w = (Raises x, w', [''Request handling error: '' @ f])"
  using assms by (simp add: chat_handle_request_def)

lemma chat_forwarded:
  assumes "HANDLER_AVAILABLE g" and "call_handler g event context w = (Returns response, w')"
  shows "chat_handle_request g event context w = (Returns response, w', [])"
  using assms by (simp add: chat_handle_request_def)

lemma chat_propagated:
  assumes "HANDLER_AVAILABLE g" and "call_handler g event context w = (Raises (PyBaseException c), w')"
  shows "chat_handle_request g event context w = (Raises (PyBaseException c), w', [])"
  using assms by (simp add: chat_handle_request_def)

section \<open>The example deployments, initialised\<close>

lemma missing_index_init:
  "module_init missing_index_imports
     = (Returns unavailable_globals, [''Failed to load FastAPI app: No module named index''])"
  by (simp add: module_init_def load_handler_def missing_index_imports_def unavailable_globals_def)

lemma working_init: "module_init working_imports = (Returns working_globals, [])"
  by (simp add: module_init_def load_handler_def working_imports_def working_globals_def
      example_Mangum_def)

lemma cancelling_init: "module_init cancelling_imports = (Returns cancelling_globals, [])"
  by (simp add: module_init_def load_handler_def cancelling_imports_def cancelling_globals_def)

lemma no_content_init: "module_init no_content_imports = (Returns no_content_globals, [])"
  by (simp add: module_init_def load_handler_def no_content_imports_def no_content_globals_def)

lemma no_content_globals_simps [simp]:
  "HANDLER_AVAILABLE no_content_globals"
  "handler no_content_globals = Some no_content_wrapper"
  "call_handler no_content_globals = no_content_wrapper"
  by (simp_all add: no_content_globals_def call_handler_def fun_eq_iff)

lemma unprintable_init: "module_init unprintable_imports = (Returns unprintable_globals, [])"
  by (simp add: module_init_def load_handler_def unprintable_imports_def unprintable_globals_def)

lemma unprintable_globals_simps [simp]:
  "HANDLER_AVAILABLE unprintable_globals"
  "handler unprintable_globals = Some unprintable_wrapper"
  "call_handler unprintable_globals = unprintable_wrapper"
  by (simp_all add: unprintable_globals_def call_handler_def fun_eq_iff)

lemma broken_index_load: "load_handler broken_index_imports = Raises unprintable"
  by (simp add: load_handler_def broken_index_imports_def)

lemma exiting_load: "load_handler exiting_imports = Raises (PyBaseException ''SystemExit'')"
  by (simp add: load_handler_def exiting_imports_def)

lemma unavailable_globals_simps [simp]:
  "\<not> HANDLER_AVAILABLE unavailable_globals"
  "error_message unavailable_globals = Some ''No module named index''"
  "handler unavailable_globals = None"
  by (simp_all add: unavailable_globals_def)

lemma working_globals_simps [simp]:
  "HANDLER_AVAILABLE working_globals"
  "handler working_globals = Some flaky_wrapper"
  "call_handler working_globals = flaky_wrapper"
  by (simp_all add: working_globals_def call_handler_def fun_eq_iff)

lemma cancelling_globals_simps [simp]:
  "HANDLER_AVAILABLE cancelling_globals"
  "handler cancelling_globals = Some cancelled_wrapper"
  "call_handler cancelling_globals = cancelled_wrapper"
  by (simp_all add: cancelling_globals_def call_handler_def fun_eq_iff)

section \<open>The Health Responder answers every request alike\<close>

text \<open>
  C1. For every event and every context, the Health Responder's \<^verbatim>\<open>handle_request\<close>
  returns a response with \<open>statusCode\<close> 200, a body whose decoded JSON is the object
  with \<open>status\<close> \<^verbatim>\<open>ok\<close>, \<open>message\<close> \<^verbatim>\<open>Physical AI Chatbot Backend is active!\<close> and
  \<open>version\<close> \<^verbatim>\<open>1.0\<close>, and headers that hold \<^verbatim>\<open>Content-Type: application/json\<close>,
  \<^verbatim>\<open>Access-Control-Allow-Origin: *\<close>, \<^verbatim>\<open>Access-Control-Allow-Methods: GET, OPTIONS\<close> and
  \<^verbatim>\<open>Access-Control-Allow-Headers: Content-Type\<close>.
\<close>

theorem health_response:
  "statusCode_of (health_handle_request event context) = Some 200
   \<and> decoded_body (health_handle_request event context)
       = Some [(''status'', ''ok''),
               (''message'', ''Physical AI Chatbot Backend is active!''),
               (''version'', ''1.0'')]
   \<and> header_of (health_handle_request event context) ''Content-Type'' = Some ''application/json''
   \<and> header_of (health_handle_request event context) ''Access-Control-Allow-Origin'' = Some ''*''
   \<and> header_of (health_handle_request event context) ''Access-Control-Allow-Methods''
       = Some ''GET, OPTIONS''
   \<and> header_of (health_handle_request event context) ''Access-Control-Allow-Headers''
       = Some ''Content-Type''"
  by (simp add: health_handle_request_def statusCode_of_def decoded_body_def header_of_def
      dict_get_def json_roundtrip)

section \<open>The gateway in the Unavailable state\<close>

text \<open>
  C2. If the initialisation of the Adapter Gateway failed, so that the gateway is in the
  Unavailable state, then for every event and every context \<^verbatim>\<open>handle_request\<close> returns
  a response with \<open>statusCode\<close> 500, headers that hold \<^verbatim>\<open>Content-Type: application/json\<close>
  and \<^verbatim>\<open>Access-Control-Allow-Origin: *\<close>, and a body whose decoded JSON has \<open>error\<close>
  equal to \<^verbatim>\<open>Backend initialization failed\<close> and \<open>details\<close> equal to the text of the
  error captured at initialisation, whatever the event holds.
\<close>

theorem chat_unavailable_response:
  assumes "module_init env = (Returns g, lg)" and "\<not> HANDLER_AVAILABLE g"
  shows "\<exists>f t r. load_handler env = Raises (PyException (Text f) (Text t))
           \<and> error_message g = Some t
           \<and> chat_handle_request g event context w = (Returns r, w, [])
           \<and> statusCode_of r = Some 500
           \<and> header_of r ''Content-Type'' = Some ''application/json''
           \<and> header_of r ''Access-Control-Allow-Origin'' = Some ''*''
           \<and> body_field r ''error'' = Some ''Backend initialization failed''
           \<and> body_field r ''details'' = Some t"
proof -
  from module_init_unavailable [OF assms] obtain f t where
    t: "load_handler env = Raises (PyException (Text f) (Text t))" and m: "error_message g = Some t"
    by auto
  define r where "r = PyDict
                 [(''statusCode'', PyInt 500),
                  (''headers'',
                     PyDict
                       [(''Content-Type'', PyStr ''application/json''),
                        (''Access-Control-Allow-Origin'', PyStr ''*'')]),
                  (''body'', PyStr (json_dumps [(''error'', ''Backend initialization failed''),
                                                (''details'', t)]))]"
  have "chat_handle_request g event context w = (Returns r, w, [])"
    unfolding r_def using assms(2) m by (rule chat_unavailable)
  with t m error_response_fields [OF r_def] show ?thesis by blast
qed

theorem chat_unavailable_response_witness:
  "module_init missing_index_imports
     = (Returns unavailable_globals, [''Failed to load FastAPI app: No module named index''])
   \<and> \<not> HANDLER_AVAILABLE unavailable_globals
   \<and> (\<exists>r. chat_handle_request unavailable_globals (PyDict [(''path'', PyStr ''/api/chat'')]) PyNone 7
              = (Returns r, 7, [])
          \<and> statusCode_of r = Some 500
          \<and> body_field r ''error'' = Some ''Backend initialization failed''
          \<and> body_field r ''details'' = Some ''No module named index'')"
proof -
  have u: "\<not> HANDLER_AVAILABLE unavailable_globals" by simp
  from chat_unavailable_response [OF missing_index_init u, of "PyDict [(''path'', PyStr ''/api/chat'')]" PyNone 7]
  show ?thesis using missing_index_init by auto
qed

text \<open>
  C7. The response of the Unavailable state is deterministic: two invocations of
  \<^verbatim>\<open>handle_request\<close> while the gateway is Unavailable with the same captured error
  text, at any events and contexts, return equal responses (and log nothing, and leave
  the state of the collaborators as it was).
\<close>

theorem chat_unavailable_deterministic:
  assumes "module_init env1 = (Returns g1, lg1)" and "\<not> HANDLER_AVAILABLE g1"
    and "module_init env2 = (Returns g2, lg2)" and "\<not> HANDLER_AVAILABLE g2"
    and "error_message g1 = error_message g2"
  shows "\<exists>r. chat_handle_request g1 event1 context1 w1 = (Returns r, w1, [])
           \<and> chat_handle_request g2 event2 context2 w2 = (Returns r, w2, [])"
proof -
  from module_init_unavailable [OF assms(1,2)] obtain t where t: "error_message g1 = Some t"
    by auto
  with assms(5) have "error_message g2 = Some t" by simp
  with t assms(2,4) show ?thesis by (simp add: chat_unavailable)
qed

theorem chat_unavailable_deterministic_witness:
  "module_init missing_index_imports
     = (Returns unavailable_globals, [''Failed to load FastAPI app: No module named index''])
   \<and> \<not> HANDLER_AVAILABLE unavailable_globals
   \<and> (\<exists>r. chat_handle_request unavailable_globals (PyStr ''first'') (PyInt 1) 0 = (Returns r, 0, [])
          \<and> chat_handle_request unavailable_globals (PyDict []) PyNone 5 = (Returns r, 5, []))"
proof -
  have u: "\<not> HANDLER_AVAILABLE unavailable_globals" by simp
  from chat_unavailable_deterministic [OF missing_index_init u missing_index_init u refl,
      of "PyStr ''first''" "PyInt 1" 0 "PyDict []" PyNone 5]
  show ?thesis using missing_index_init by simp
qed

text \<open>
  C9. In the Unavailable state \<^verbatim>\<open>handle_request\<close> never invokes the translation wrapper
  or the wrapped application: whatever \<^verbatim>\<open>handler\<close> is bound to, the call returns what
  it returns with \<^verbatim>\<open>handler\<close> unbound, and the state of the collaborators is the one
  the call started in.
\<close>

theorem chat_unavailable_never_forwards:
  assumes "\<not> HANDLER_AVAILABLE g"
  shows "chat_handle_request (g\<lparr>handler := h\<rparr>) event context w
           = chat_handle_request (g\<lparr>handler := None\<rparr>) event context w
         \<and> fst (snd (chat_handle_request (g\<lparr>handler := h\<rparr>) event context w)) = w"
  using assms by (simp add: chat_handle_request_def split: option.splits)

theorem chat_unavailable_never_forwards_witness:
  "\<not> HANDLER_AVAILABLE unavailable_globals
   \<and> cancelled_wrapper PyNone PyNone 3 = (Raises (PyBaseException ''CancelledError''), 4)
   \<and> chat_handle_request (unavailable_globals\<lparr>handler := Some cancelled_wrapper\<rparr>) PyNone PyNone 3
       = chat_handle_request (unavailable_globals\<lparr>handler := None\<rparr>) PyNone PyNone 3
   \<and> fst (snd (chat_handle_request (unavailable_globals\<lparr>handler := Some cancelled_wrapper\<rparr>)
                  PyNone PyNone 3)) = 3"
proof -
  have u: "\<not> HANDLER_AVAILABLE unavailable_globals" by simp
  have c: "cancelled_wrapper PyNone PyNone 3 = (Raises (PyBaseException ''CancelledError''), 4)"
    by (simp add: cancelled_wrapper_def)
  from chat_unavailable_never_forwards [OF u, of "Some cancelled_wrapper" PyNone PyNone 3] u c
  show ?thesis by blast
qed

section \<open>The gateway in the Available state\<close>

text \<open>
  C4. If the initialisation succeeded and the forwarding call to the translation wrapper
  completes without raising, \<^verbatim>\<open>handle_request\<close> returns the very value the call has
  produced, with no field added, removed or changed.
\<close>

theorem chat_forwards_response:
  assumes "module_init env = (Returns g, lg)" and "HANDLER_AVAILABLE g"
  shows "\<exists>h. load_handler env = Returns h \<and> handler g = Some h
           \<and> (\<forall>response w'. h event context w = (Returns response, w')
                 \<longrightarrow> chat_handle_request g event context w = (Returns response, w', []))"
proof -
  from module_init_available [OF assms] obtain h where
    h: "load_handler env = Returns h" and g: "handler g = Some h"
    by auto
  from g have "call_handler g event context w = h event context w"
    by (simp add: call_handler_def)
  with assms(2) h g show ?thesis by (simp add: chat_forwarded)
qed

theorem chat_forwards_response_witness:
  "module_init working_imports = (Returns working_globals, [])
   \<and> HANDLER_AVAILABLE working_globals
   \<and> flaky_wrapper (PyDict [(''path'', PyStr ''/api/chat'')]) PyNone 1 = (Returns ok_response, 2)
   \<and> chat_handle_request working_globals (PyDict [(''path'', PyStr ''/api/chat'')]) PyNone 1
       = (Returns ok_response, 2, [])"
proof -
  have a: "HANDLER_AVAILABLE working_globals" by simp
  have f: "flaky_wrapper (PyDict [(''path'', PyStr ''/api/chat'')]) PyNone 1 = (Returns ok_response, 2)"
    by (simp add: flaky_wrapper_def)
  from chat_forwards_response [OF working_init a, of "PyDict [(''path'', PyStr ''/api/chat'')]" PyNone 1]
  show ?thesis using working_init f by auto
qed

text \<open>
  C3. If the initialisation succeeded and the forwarding call to the translation wrapper
  raises an instance of \<^verbatim>\<open>Exception\<close> whose text can be taken (\<^verbatim>\<open>f"{e}"\<close> and
  \<^verbatim>\<open>str(e)\<close> return), \<^verbatim>\<open>handle_request\<close> catches it, logs it and returns a
  response with \<open>statusCode\<close> 500, headers that hold \<^verbatim>\<open>Content-Type: application/json\<close>
  and \<^verbatim>\<open>Access-Control-Allow-Origin: *\<close>, and a body whose decoded JSON has \<open>error\<close>
  equal to \<^verbatim>\<open>Internal server error\<close> and \<open>details\<close> equal to \<^verbatim>\<open>str(e)\<close>. The next
  call is served as any other: a forwarding call that returns then has its value
  returned. An exception that is no instance of \<^verbatim>\<open>Exception\<close> is not caught:
  \<^verbatim>\<open>handle_request\<close> raises it in turn and logs nothing.
\<close>

theorem chat_exception_response:
  assumes "module_init env = (Returns g, lg)" and "HANDLER_AVAILABLE g"
  shows "\<exists>h. load_handler env = Returns h \<and> handler g = Some h
           \<and> (\<forall>f t w'. h event context w = (Raises (PyException (Text f) (Text t)), w') \<longrightarrow>
                 (\<exists>r. chat_handle_request g event context w
                         = (Returns r, w', [''Request handling error: '' @ f])
                    \<and> statusCode_of r = Some 500
                    \<and> header_of r ''Content-Type'' = Some ''application/json''
                    \<and> header_of r ''Access-Control-Allow-Origin'' = Some ''*''
                    \<and> body_field r ''error'' = Some ''Internal server error''
                    \<and> body_field r ''details'' = Some t)
                 \<and> (\<forall>event' context' response w''.
                        h event' context' w' = (Returns response, w'')
                        \<longrightarrow> chat_handle_request g event' context' w' = (Returns response, w'', [])))
           \<and> (\<forall>c w'. h event context w = (Raises (PyBaseException c), w') \<longrightarrow>
                 chat_handle_request g event context w = (Raises (PyBaseException c), w', []))"
proof -
  from module_init_available [OF assms] obtain h where
    h: "load_handler env = Returns h" and g: "handler g = Some h"
    by auto
  from g have c: "call_handler g = h"
    by (simp add: call_handler_def fun_eq_iff)
  have caught: "\<exists>r. chat_handle_request g event context w
                         = (Returns r, w', [''Request handling error: '' @ f])
                    \<and> statusCode_of r = Some 500
                    \<and> header_of r ''Content-Type'' = Some ''application/json''
                    \<and> header_of r ''Access-Control-Allow-Origin'' = Some ''*''
                    \<and> body_field r ''error'' = Some ''Internal server error''
                    \<and> body_field r ''details'' = Some t"
    if raised: "h event context w = (Raises (PyException (Text f) (Text t)), w')" for f t w'
  proof -
    define r where "r = PyDict
                 [(''statusCode'', PyInt 500),
                  (''headers'',
                     PyDict
                       [(''Content-Type'', PyStr ''application/json''),
                        (''Access-Control-Allow-Origin'', PyStr ''*'')]),
                  (''body'', PyStr (json_dumps [(''error'', ''Internal server error''),
                                                (''details'', t)]))]"
    have "chat_handle_request g event context w = (Returns r, w', [''Request handling error: '' @ f])"
      unfolding r_def using assms(2) raised c by (simp add: chat_caught)
    with error_response_fields [OF r_def] show ?thesis by blast
  qed
  have "next": "chat_handle_request g event' context' w' = (Returns response, w'', [])"
    if "h event' context' w' = (Returns response, w'')" for event' context' response w' w''
    using that assms(2) c by (simp add: chat_forwarded)
  have passed: "chat_handle_request g event context w = (Raises (PyBaseException b), w', [])"
    if "h event context w = (Raises (PyBaseException b), w')" for b w'
    using that assms(2) c by (simp add: chat_propagated)
  from h g caught "next" passed show ?thesis by blast
qed

theorem chat_exception_response_witness:
  "module_init working_imports = (Returns working_globals, [])
   \<and> HANDLER_AVAILABLE working_globals
   \<and> flaky_wrapper (PyDict []) PyNone 0 = (Raises (plain_exception ''upstream timed out''), 1)
   \<and> (\<exists>r. chat_handle_request working_globals (PyDict []) PyNone 0
              = (Returns r, 1, [''Request handling error: upstream timed out''])
          \<and> statusCode_of r = Some 500
          \<and> body_field r ''error'' = Some ''Internal server error''
          \<and> body_field r ''details'' = Some ''upstream timed out'')
   \<and> chat_handle_request working_globals (PyDict []) PyNone 1 = (Returns ok_response, 2, [])
   \<and> module_init cancelling_imports = (Returns cancelling_globals, [])
   \<and> HANDLER_AVAILABLE cancelling_globals
   \<and> cancelled_wrapper (PyDict []) PyNone 0 = (Raises (PyBaseException ''CancelledError''), 1)
   \<and> chat_handle_request cancelling_globals (PyDict []) PyNone 0
       = (Raises (PyBaseException ''CancelledError''), 1, [])"
proof -
  have a: "HANDLER_AVAILABLE working_globals" and b: "HANDLER_AVAILABLE cancelling_globals"
    by simp_all
  have f0: "flaky_wrapper (PyDict []) PyNone 0 = (Raises (plain_exception ''upstream timed out''), 1)"
    and f1: "flaky_wrapper (PyDict []) PyNone 1 = (Returns ok_response, 2)"
    and c0: "cancelled_wrapper (PyDict []) PyNone 0 = (Raises (PyBaseException ''CancelledError''), 1)"
    by (simp_all add: flaky_wrapper_def cancelled_wrapper_def)
  from chat_exception_response [OF working_init a, of "PyDict []" PyNone 0]
    chat_exception_response [OF cancelling_init b, of "PyDict []" PyNone 0]
  show ?thesis using working_init cancelling_init f0 f1 c0 by auto
qed

text \<open>
  The claim as the specification words it, for any exception, fails twice. A forwarding
  call that is cancelled raises \<^verbatim>\<open>asyncio.CancelledError\<close>, which is no instance of
  \<^verbatim>\<open>Exception\<close>: the handler does not catch it and returns no response. And an
  instance of \<^verbatim>\<open>Exception\<close> whose \<^verbatim>\<open>__str__\<close> raises is caught, but formatting it
  for the log on line 54 raises inside the \<^verbatim>\<open>except\<close> block, and that exception leaves
  the handler.
\<close>

theorem chat_cancelled_forwarding_counterexample:
  "module_init cancelling_imports = (Returns cancelling_globals, [])
   \<and> HANDLER_AVAILABLE cancelling_globals
   \<and> call_handler cancelling_globals (PyDict []) PyNone 0
       = (Raises (PyBaseException ''CancelledError''), 1)
   \<and> chat_handle_request cancelling_globals (PyDict []) PyNone 0
       = (Raises (PyBaseException ''CancelledError''), 1, [])
   \<and> module_init unprintable_imports = (Returns unprintable_globals, [])
   \<and> HANDLER_AVAILABLE unprintable_globals
   \<and> call_handler unprintable_globals (PyDict []) PyNone 0 = (Raises unprintable, 1)
   \<and> chat_handle_request unprintable_globals (PyDict []) PyNone 0
       = (Raises (plain_exception ''tuple index out of range''), 1, [])"
proof -
  have c: "call_handler cancelling_globals (PyDict []) PyNone 0
             = (Raises (PyBaseException ''CancelledError''), 1)"
    by (simp add: cancelled_wrapper_def)
  have "chat_handle_request cancelling_globals (PyDict []) PyNone 0
          = (Raises (PyBaseException ''CancelledError''), 1, [])"
    by (rule chat_propagated [OF _ c]) simp
  moreover have u: "call_handler unprintable_globals (PyDict []) PyNone 0 = (Raises unprintable, 1)"
    by (simp add: unprintable_wrapper_def)
  moreover have "chat_handle_request unprintable_globals (PyDict []) PyNone 0
          = (Raises (plain_exception ''tuple index out of range''), 1, [])"
    by (rule chat_format_raises [OF _ u [unfolded unprintable_def]]) simp
  ultimately show ?thesis using c cancelling_init unprintable_init by simp
qed

section \<open>Properties of every path\<close>

lemma health_is_invocation_response: "is_invocation_response (health_handle_request event context)"
  by (simp add: is_invocation_response_def health_handle_request_def dict_get_def is_str_def)

lemma health_cors_header:
  "header_of (health_handle_request event context) ''Access-Control-Allow-Origin'' = Some ''*''"
  by (simp add: header_of_def health_handle_request_def dict_get_def)

text \<open>
  C5. Every response that a handler builds itself (the response of the Health Responder,
  the gateway's response in the Unavailable state, and its response to a caught
  exception) holds the header \<^verbatim>\<open>Access-Control-Allow-Origin: *\<close>. A forwarded response is
  the value of the forwarding call, returned as it is: it holds the header exactly when
  the wrapped application has put it there.
\<close>

theorem cors_header_on_own_responses:
  assumes "module_init env = (Returns g, lg)"
  shows "header_of (health_handle_request event context) ''Access-Control-Allow-Origin'' = Some ''*''
         \<and> (\<not> HANDLER_AVAILABLE g \<longrightarrow>
              (\<exists>r. fst (chat_handle_request g event context w) = Returns r
                 \<and> header_of r ''Access-Control-Allow-Origin'' = Some ''*''))
         \<and> (\<forall>f t w'. HANDLER_AVAILABLE g
                     \<and> call_handler g event context w
                         = (Raises (PyException (Text f) (Text t)), w') \<longrightarrow>
              (\<exists>r. fst (chat_handle_request g event context w) = Returns r
                 \<and> header_of r ''Access-Control-Allow-Origin'' = Some ''*''))
         \<and> (\<forall>v w'. HANDLER_AVAILABLE g
                     \<and> call_handler g event context w = (Returns v, w') \<longrightarrow>
              fst (chat_handle_request g event context w) = Returns v)"
proof (intro conjI allI impI)
  show "header_of (health_handle_request event context) ''Access-Control-Allow-Origin'' = Some ''*''"
    by (rule health_cors_header)
next
  assume u: "\<not> HANDLER_AVAILABLE g"
  from module_init_unavailable [OF assms u] obtain t where "error_message g = Some t"
    by auto
  with u show "\<exists>r. fst (chat_handle_request g event context w) = Returns r
                 \<and> header_of r ''Access-Control-Allow-Origin'' = Some ''*''"
    by (simp add: chat_unavailable error_response_fields(3))
next
  fix f t w'
  assume "HANDLER_AVAILABLE g
          \<and> call_handler g event context w = (Raises (PyException (Text f) (Text t)), w')"
  then show "\<exists>r. fst (chat_handle_request g event context w) = Returns r
                 \<and> header_of r ''Access-Control-Allow-Origin'' = Some ''*''"
    by (simp add: chat_caught error_response_fields(3))
next
  fix v w'
  assume "HANDLER_AVAILABLE g \<and> call_handler g event context w = (Returns v, w')"
  then show "fst (chat_handle_request g event context w) = Returns v"
    by (simp add: chat_forwarded)
qed

theorem cors_header_on_own_responses_witness:
  "module_init missing_index_imports
     = (Returns unavailable_globals, [''Failed to load FastAPI app: No module named index''])
   \<and> \<not> HANDLER_AVAILABLE unavailable_globals
   \<and> (\<exists>r. fst (chat_handle_request unavailable_globals (PyDict []) PyNone 0) = Returns r
          \<and> header_of r ''Access-Control-Allow-Origin'' = Some ''*'')
   \<and> module_init working_imports = (Returns working_globals, [])
   \<and> HANDLER_AVAILABLE working_globals
   \<and> call_handler working_globals (PyDict []) PyNone 0
       = (Raises (plain_exception ''upstream timed out''), 1)
   \<and> (\<exists>r. fst (chat_handle_request working_globals (PyDict []) PyNone 0) = Returns r
          \<and> header_of r ''Access-Control-Allow-Origin'' = Some ''*'')
   \<and> call_handler working_globals (PyDict []) PyNone 1 = (Returns ok_response, 2)
   \<and> fst (chat_handle_request working_globals (PyDict []) PyNone 1) = Returns ok_response"
proof -
  have f0: "call_handler working_globals (PyDict []) PyNone 0
              = (Raises (plain_exception ''upstream timed out''), 1)"
    and f1: "call_handler working_globals (PyDict []) PyNone 1 = (Returns ok_response, 2)"
    by (simp_all add: flaky_wrapper_def)
  from cors_header_on_own_responses [OF missing_index_init, of "PyDict []" PyNone 0]
    cors_header_on_own_responses [OF working_init, of "PyDict []" PyNone 0]
    cors_header_on_own_responses [OF working_init, of "PyDict []" PyNone 1]
  show ?thesis using missing_index_init working_init f0 f1 by auto
qed

text \<open>
  The claim as the specification words it, for the forwarded response too, fails: the
  handler adds no header to what the wrapped application answers.
\<close>

theorem cors_header_forwarded_counterexample:
  "module_init working_imports = (Returns working_globals, [])
   \<and> chat_handle_request working_globals (PyDict []) PyNone 1 = (Returns ok_response, 2, [])
   \<and> header_of ok_response ''Access-Control-Allow-Origin'' = None"
proof -
  have "call_handler working_globals (PyDict []) PyNone 1 = (Returns ok_response, 2)"
    by (simp add: flaky_wrapper_def)
  then have "chat_handle_request working_globals (PyDict []) PyNone 1 = (Returns ok_response, 2, [])"
    by (simp add: chat_forwarded)
  moreover have "header_of ok_response ''Access-Control-Allow-Origin'' = None"
    by (simp add: header_of_def ok_response_def dict_get_def)
  ultimately show ?thesis using working_init by simp
qed

text \<open>
  C6. The Health Responder, the gateway in the Unavailable state and the gateway that has
  caught an instance of \<^verbatim>\<open>Exception\<close> whose text can be taken (\<^verbatim>\<open>f"{e}"\<close> and
  \<^verbatim>\<open>str(e)\<close> return) return a value of the shape of an Invocation Response (an
  integer \<open>statusCode\<close>, \<open>headers\<close> from strings to strings, a string \<open>body\<close>)
  and raise nothing. A forwarding call that returns has its value returned as
  it is, of whatever shape. A forwarding call that raises an exception that is no instance
  of \<^verbatim>\<open>Exception\<close> has it raised by \<^verbatim>\<open>handle_request\<close> in turn.
\<close>

theorem handlers_response_shape:
  assumes "module_init env = (Returns g, lg)"
  shows "is_invocation_response (health_handle_request event context)
         \<and> (\<not> HANDLER_AVAILABLE g \<longrightarrow>
              (\<exists>r. fst (chat_handle_request g event context w) = Returns r
                 \<and> is_invocation_response r))
         \<and> (\<forall>f t w'. HANDLER_AVAILABLE g
                     \<and> call_handler g event context w
                         = (Raises (PyException (Text f) (Text t)), w') \<longrightarrow>
              (\<exists>r. fst (chat_handle_request g event context w) = Returns r
                 \<and> is_invocation_response r))
         \<and> (\<forall>v w'. HANDLER_AVAILABLE g
                     \<and> call_handler g event context w = (Returns v, w') \<longrightarrow>
              fst (chat_handle_request g event context w) = Returns v)
         \<and> (\<forall>t w'. HANDLER_AVAILABLE g
                     \<and> call_handler g event context w = (Raises (PyBaseException t), w') \<longrightarrow>
              fst (chat_handle_request g event context w) = Raises (PyBaseException t))"
proof (intro conjI allI impI)
  show "is_invocation_response (health_handle_request event context)"
    by (rule health_is_invocation_response)
next
  assume u: "\<not> HANDLER_AVAILABLE g"
  from module_init_unavailable [OF assms u] obtain t where "error_message g = Some t"
    by auto
  with u show "\<exists>r. fst (chat_handle_request g event context w) = Returns r
                 \<and> is_invocation_response r"
    by (simp add: chat_unavailable error_response_fields(9))
next
  fix f t w'
  assume "HANDLER_AVAILABLE g
          \<and> call_handler g event context w = (Raises (PyException (Text f) (Text t)), w')"
  then show "\<exists>r. fst (chat_handle_request g event context w) = Returns r
                 \<and> is_invocation_response r"
    by (simp add: chat_caught error_response_fields(9))
next
  fix v w'
  assume "HANDLER_AVAILABLE g \<and> call_handler g event context w = (Returns v, w')"
  then show "fst (chat_handle_request g event context w) = Returns v"
    by (simp add: chat_forwarded)
next
  fix t w'
  assume "HANDLER_AVAILABLE g \<and> call_handler g event context w = (Raises (PyBaseException t), w')"
  then show "fst (chat_handle_request g event context w) = Raises (PyBaseException t)"
    by (simp add: chat_propagated)
qed

theorem handlers_response_shape_witness:
  "module_init missing_index_imports
     = (Returns unavailable_globals, [''Failed to load FastAPI app: No module named index''])
   \<and> \<not> HANDLER_AVAILABLE unavailable_globals
   \<and> is_invocation_response (health_handle_request (PyStr ''ping'') PyNone)
   \<and> (\<exists>r. fst (chat_handle_request unavailable_globals (PyStr ''ping'') PyNone 0) = Returns r
          \<and> is_invocation_response r)
   \<and> module_init working_imports = (Returns working_globals, [])
   \<and> HANDLER_AVAILABLE working_globals
   \<and> call_handler working_globals (PyStr ''ping'') PyNone 0
       = (Raises (plain_exception ''upstream timed out''), 1)
   \<and> (\<exists>r. fst (chat_handle_request working_globals (PyStr ''ping'') PyNone 0) = Returns r
          \<and> is_invocation_response r)
   \<and> call_handler working_globals (PyStr ''ping'') PyNone 1 = (Returns ok_response, 2)
   \<and> fst (chat_handle_request working_globals (PyStr ''ping'') PyNone 1) = Returns ok_response
   \<and> module_init cancelling_imports = (Returns cancelling_globals, [])
   \<and> HANDLER_AVAILABLE cancelling_globals
   \<and> call_handler cancelling_globals (PyStr ''ping'') PyNone 0
       = (Raises (PyBaseException ''CancelledError''), 1)
   \<and> fst (chat_handle_request cancelling_globals (PyStr ''ping'') PyNone 0)
       = Raises (PyBaseException ''CancelledError'')"
proof -
  have f0: "call_handler working_globals (PyStr ''ping'') PyNone 0
              = (Raises (plain_exception ''upstream timed out''), 1)"
    and f1: "call_handler working_globals (PyStr ''ping'') PyNone 1 = (Returns ok_response, 2)"
    and c0: "call_handler cancelling_globals (PyStr ''ping'') PyNone 0
              = (Raises (PyBaseException ''CancelledError''), 1)"
    by (simp_all add: flaky_wrapper_def cancelled_wrapper_def)
  from handlers_response_shape [OF missing_index_init, of "PyStr ''ping''" PyNone 0]
    handlers_response_shape [OF working_init, of "PyStr ''ping''" PyNone 0]
    handlers_response_shape [OF working_init, of "PyStr ''ping''" PyNone 1]
    handlers_response_shape [OF cancelling_init, of "PyStr ''ping''" PyNone 0]
  show ?thesis using missing_index_init working_init cancelling_init f0 f1 c0 by auto
qed

text \<open>
  The claim as the specification words it, for every path, fails three times. A
  forwarding call that raises \<^verbatim>\<open>KeyboardInterrupt\<close>, \<^verbatim>\<open>SystemExit\<close> or
  \<^verbatim>\<open>asyncio.CancelledError\<close> passes the \<^verbatim>\<open>except Exception\<close> clause, and the failure
  leaves the handler. A forwarding call that returns a value of another shape, here a
  dictionary with no \<open>body\<close>, has that value returned. And a caught exception whose
  \<^verbatim>\<open>__str__\<close> raises makes line 54 raise inside the \<^verbatim>\<open>except\<close> block.
\<close>

theorem handlers_response_shape_counterexample:
  "module_init cancelling_imports = (Returns cancelling_globals, [])
   \<and> fst (chat_handle_request cancelling_globals (PyStr ''ping'') PyNone 0)
       = Raises (PyBaseException ''CancelledError'')
   \<and> module_init no_content_imports = (Returns no_content_globals, [])
   \<and> fst (chat_handle_request no_content_globals (PyStr ''ping'') PyNone 0)
       = Returns no_content_response
   \<and> \<not> is_invocation_response no_content_response
   \<and> module_init unprintable_imports = (Returns unprintable_globals, [])
   \<and> call_handler unprintable_globals (PyStr ''ping'') PyNone 0 = (Raises unprintable, 1)
   \<and> fst (chat_handle_request unprintable_globals (PyStr ''ping'') PyNone 0)
       = Raises (plain_exception ''tuple index out of range'')"
proof -
  have "call_handler cancelling_globals (PyStr ''ping'') PyNone 0
          = (Raises (PyBaseException ''CancelledError''), 1)"
    by (simp add: cancelled_wrapper_def)
  then have a: "fst (chat_handle_request cancelling_globals (PyStr ''ping'') PyNone 0)
          = Raises (PyBaseException ''CancelledError'')"
    by (simp add: chat_propagated)
  have "call_handler no_content_globals (PyStr ''ping'') PyNone 0 = (Returns no_content_response, 1)"
    by (simp add: no_content_wrapper_def)
  then have b: "fst (chat_handle_request no_content_globals (PyStr ''ping'') PyNone 0)
          = Returns no_content_response"
    by (simp add: chat_forwarded)
  have c: "\<not> is_invocation_response no_content_response"
    by (simp add: is_invocation_response_def no_content_response_def dict_get_def)
  have u: "call_handler unprintable_globals (PyStr ''ping'') PyNone 0 = (Raises unprintable, 1)"
    by (simp add: unprintable_wrapper_def)
  have "chat_handle_request unprintable_globals (PyStr ''ping'') PyNone 0
          = (Raises (plain_exception ''tuple index out of range''), 1, [])"
    by (rule chat_format_raises [OF _ u [unfolded unprintable_def]]) simp
  then have d: "fst (chat_handle_request unprintable_globals (PyStr ''ping'') PyNone 0)
          = Raises (plain_exception ''tuple index out of range'')"
    by simp
  from a b c d u cancelling_init no_content_init unprintable_init show ?thesis by simp
qed

text \<open>
  C10. The two error responses that the gateway builds, in the Unavailable state and for
  a caught exception, carry exactly two headers, \<^verbatim>\<open>Content-Type: application/json\<close> and
  \<^verbatim>\<open>Access-Control-Allow-Origin: *\<close>: they have no \<^verbatim>\<open>Access-Control-Allow-Methods\<close> and no
  \<^verbatim>\<open>Access-Control-Allow-Headers\<close>, which the response of the Health Responder has.
\<close>

theorem chat_error_headers:
  assumes "module_init env = (Returns g, lg)"
    and "\<not> HANDLER_AVAILABLE g
         \<or> (\<exists>f t. call_handler g event context w
                       = (Raises (PyException (Text f) (Text t)), w'))"
  shows "\<exists>r. fst (chat_handle_request g event context w) = Returns r
           \<and> dict_get r ''headers''
               = Some (PyDict [(''Content-Type'', PyStr ''application/json''),
                               (''Access-Control-Allow-Origin'', PyStr ''*'')])
           \<and> header_of r ''Access-Control-Allow-Methods'' = None
           \<and> header_of r ''Access-Control-Allow-Headers'' = None
           \<and> header_of (health_handle_request event context) ''Access-Control-Allow-Methods''
               = Some ''GET, OPTIONS''
           \<and> header_of (health_handle_request event context) ''Access-Control-Allow-Headers''
               = Some ''Content-Type''"
proof -
  have health:
    "header_of (health_handle_request event context) ''Access-Control-Allow-Methods''
       = Some ''GET, OPTIONS''"
    "header_of (health_handle_request event context) ''Access-Control-Allow-Headers''
       = Some ''Content-Type''"
    by (simp_all add: header_of_def health_handle_request_def dict_get_def)
  have "\<exists>e d. fst (chat_handle_request g event context w)
                = Returns (PyDict
                    [(''statusCode'', PyInt 500),
                     (''headers'',
                        PyDict
                          [(''Content-Type'', PyStr ''application/json''),
                           (''Access-Control-Allow-Origin'', PyStr ''*'')]),
                     (''body'', PyStr (json_dumps [(''error'', e), (''details'', d)]))])"
  proof (cases "HANDLER_AVAILABLE g")
    case False
    from module_init_unavailable [OF assms(1) False] obtain t where "error_message g = Some t"
      by auto
    with False show ?thesis by (simp add: chat_unavailable) blast
  next
    case True
    with assms(2) obtain f t where
      "call_handler g event context w = (Raises (PyException (Text f) (Text t)), w')"
      by auto
    with True show ?thesis by (simp add: chat_caught) blast
  qed
  then obtain e d r where r: "fst (chat_handle_request g event context w) = Returns r"
    and lit: "r = PyDict
                    [(''statusCode'', PyInt 500),
                     (''headers'',
                        PyDict
                          [(''Content-Type'', PyStr ''application/json''),
                           (''Access-Control-Allow-Origin'', PyStr ''*'')]),
                     (''body'', PyStr (json_dumps [(''error'', e), (''details'', d)]))]"
    by blast
  from r health error_response_fields(4,5,10) [OF lit] show ?thesis by blast
qed

theorem chat_error_headers_witness:
  "module_init missing_index_imports
     = (Returns unavailable_globals, [''Failed to load FastAPI app: No module named index''])
   \<and> \<not> HANDLER_AVAILABLE unavailable_globals
   \<and> (\<exists>r. fst (chat_handle_request unavailable_globals (PyDict []) PyNone 0) = Returns r
          \<and> dict_get r ''headers''
              = Some (PyDict [(''Content-Type'', PyStr ''application/json''),
                              (''Access-Control-Allow-Origin'', PyStr ''*'')])
          \<and> header_of r ''Access-Control-Allow-Methods'' = None)
   \<and> module_init working_imports = (Returns working_globals, [])
   \<and> call_handler working_globals (PyDict []) PyNone 0
       = (Raises (plain_exception ''upstream timed out''), 1)
   \<and> (\<exists>r. fst (chat_handle_request working_globals (PyDict []) PyNone 0) = Returns r
          \<and> dict_get r ''headers''
              = Some (PyDict [(''Content-Type'', PyStr ''application/json''),
                              (''Access-Control-Allow-Origin'', PyStr ''*'')])
          \<and> header_of r ''Access-Control-Allow-Headers'' = None)"
proof -
  have u: "\<not> HANDLER_AVAILABLE unavailable_globals
           \<or> (\<exists>f t. call_handler unavailable_globals (PyDict []) PyNone 0
                         = (Raises (PyException (Text f) (Text t)), 0))"
    by simp
  have f0: "call_handler working_globals (PyDict []) PyNone 0
              = (Raises (plain_exception ''upstream timed out''), 1)"
    by (simp add: flaky_wrapper_def)
  then have f: "\<not> HANDLER_AVAILABLE working_globals
           \<or> (\<exists>f t. call_handler working_globals (PyDict []) PyNone 0
                         = (Raises (PyException (Text f) (Text t)), 1))"
    by simp
  from chat_error_headers [OF missing_index_init u] chat_error_headers [OF working_init f]
  show ?thesis using missing_index_init working_init f0 by auto
qed

section \<open>Initialisation\<close>

text \<open>
  C8. If an instance of \<^verbatim>\<open>Exception\<close> whose text can be taken (\<^verbatim>\<open>f"{e}"\<close> and
  \<^verbatim>\<open>str(e)\<close> return) is raised while the module obtains the web application or
  constructs its translation wrapper, the gateway enters the Unavailable state, with
  \<^verbatim>\<open>handler\<close> unbound and \<^verbatim>\<open>str(e)\<close> recorded in \<^verbatim>\<open>error_message\<close>, and the module
  loads. In the Available state the wrapper is the one constructed from the imported
  application with \<^verbatim>\<open>lifespan="off"\<close>. An exception that is no instance of
  \<^verbatim>\<open>Exception\<close>, raised by either import or by the constructor, is not caught: the
  module raises it and does not load.
\<close>

theorem module_init_degrades:
  "(\<forall>f t. import_index env = Raises (PyException (Text f) (Text t))
         \<or> (\<exists>app. import_index env = Returns app
               \<and> (import_mangum env = Raises (PyException (Text f) (Text t))
                   \<or> (\<exists>Mangum. import_mangum env = Returns Mangum
                          \<and> Mangum app ''off'' = Raises (PyException (Text f) (Text t)))))
        \<longrightarrow> module_init env
              = (Returns \<lparr>HANDLER_AVAILABLE = False, handler = None, error_message = Some t\<rparr>,
                         [''Failed to load FastAPI app: '' @ f]))
   \<and> (\<forall>g lg. module_init env = (Returns g, lg) \<and> HANDLER_AVAILABLE g
        \<longrightarrow> (\<exists>app Mangum h. import_index env = Returns app \<and> import_mangum env = Returns Mangum
                \<and> Mangum app ''off'' = Returns h \<and> handler g = Some h))
   \<and> (\<forall>c. import_index env = Raises (PyBaseException c)
         \<or> (\<exists>app. import_index env = Returns app
               \<and> (import_mangum env = Raises (PyBaseException c)
                   \<or> (\<exists>Mangum. import_mangum env = Returns Mangum
                          \<and> Mangum app ''off'' = Raises (PyBaseException c))))
        \<longrightarrow> module_init env = (Raises (PyBaseException c), []))"
proof (intro conjI allI impI)
  fix f t
  assume "import_index env = Raises (PyException (Text f) (Text t))
         \<or> (\<exists>app. import_index env = Returns app
               \<and> (import_mangum env = Raises (PyException (Text f) (Text t))
                   \<or> (\<exists>Mangum. import_mangum env = Returns Mangum
                          \<and> Mangum app ''off'' = Raises (PyException (Text f) (Text t)))))"
  then have "load_handler env = Raises (PyException (Text f) (Text t))"
    by (simp only: load_handler_Raises)
  then show "module_init env
              = (Returns \<lparr>HANDLER_AVAILABLE = False, handler = None, error_message = Some t\<rparr>,
                         [''Failed to load FastAPI app: '' @ f])"
    by (simp add: module_init_def)
next
  fix g :: "'b globals" and lg
  assume a: "module_init env = (Returns g, lg) \<and> HANDLER_AVAILABLE g"
  then have "module_init env = (Returns g, lg)" and "HANDLER_AVAILABLE g"
    by simp_all
  from module_init_available [OF this] obtain h where
    "load_handler env = Returns h" and "handler g = Some h"
    by auto
  then show "\<exists>app Mangum h. import_index env = Returns app \<and> import_mangum env = Returns Mangum
                \<and> Mangum app ''off'' = Returns h \<and> handler g = Some h"
    by (auto simp: load_handler_Returns)
next
  fix c
  assume "import_index env = Raises (PyBaseException c)
         \<or> (\<exists>app. import_index env = Returns app
               \<and> (import_mangum env = Raises (PyBaseException c)
                   \<or> (\<exists>Mangum. import_mangum env = Returns Mangum
                          \<and> Mangum app ''off'' = Raises (PyBaseException c))))"
  then have "load_handler env = Raises (PyBaseException c)"
    by (simp only: load_handler_Raises)
  then show "module_init env = (Raises (PyBaseException c), [])"
    by (simp add: module_init_def)
qed

theorem module_init_degrades_witness:
  "import_index missing_index_imports = Raises (plain_exception ''No module named index'')
   \<and> module_init missing_index_imports
       = (Returns \<lparr>HANDLER_AVAILABLE = False, handler = None,
                   error_message = Some ''No module named index''\<rparr>,
                  [''Failed to load FastAPI app: No module named index''])
   \<and> module_init working_imports = (Returns working_globals, [])
   \<and> HANDLER_AVAILABLE working_globals
   \<and> import_index working_imports = Returns ()
   \<and> import_mangum working_imports = Returns example_Mangum
   \<and> example_Mangum () ''off'' = Returns flaky_wrapper
   \<and> example_Mangum () ''auto'' = Raises (plain_exception ''lifespan startup failed'')
   \<and> handler working_globals = Some flaky_wrapper
   \<and> import_index exiting_imports = Raises (PyBaseException ''SystemExit'')
   \<and> module_init exiting_imports = (Raises (PyBaseException ''SystemExit''), [])"
proof -
  have i: "import_index missing_index_imports = Raises (plain_exception ''No module named index'')"
    by (simp add: missing_index_imports_def)
  have w: "import_index working_imports = Returns ()"
    "import_mangum working_imports = Returns example_Mangum"
    "example_Mangum () ''off'' = Returns flaky_wrapper"
    "example_Mangum () ''auto'' = Raises (plain_exception ''lifespan startup failed'')"
    by (simp_all add: working_imports_def example_Mangum_def)
  have x: "import_index exiting_imports = Raises (PyBaseException ''SystemExit'')"
    by (simp add: exiting_imports_def)
  from module_init_degrades [of missing_index_imports] module_init_degrades [of working_imports]
    module_init_degrades [of exiting_imports]
  show ?thesis using i w x working_init by auto
qed

text \<open>
  The claim as the specification words it, for any exception, fails twice. An
  application module that ends the process while it is imported raises
  \<^verbatim>\<open>SystemExit\<close>, which the \<^verbatim>\<open>except Exception\<close> clause lets through: the module does
  not load and there is no Unavailable state. And an instance of \<^verbatim>\<open>Exception\<close> whose
  \<^verbatim>\<open>__str__\<close> raises is caught, but formatting it for the log on line 27 raises inside
  the \<^verbatim>\<open>except\<close> block, before the flag is assigned, and the module does not load.
\<close>

theorem module_init_exit_counterexample:
  "import_index exiting_imports = Raises (PyBaseException ''SystemExit'')
   \<and> module_init exiting_imports = (Raises (PyBaseException ''SystemExit''), [])
   \<and> import_index broken_index_imports = Raises unprintable
   \<and> module_init broken_index_imports = (Raises (plain_exception ''tuple index out of range''), [])"
proof -
  have "module_init exiting_imports = (Raises (PyBaseException ''SystemExit''), [])"
    by (simp add: module_init_def exiting_load)
  moreover have "module_init broken_index_imports
                   = (Raises (plain_exception ''tuple index out of range''), [])"
    by (simp add: module_init_def broken_index_load unprintable_def)
  ultimately show ?thesis
    by (simp add: exiting_imports_def broken_index_imports_def)
qed

end
